theory Spec2Isabelle
  imports Complex_Main "HOL-Library.Sublist"
begin

section \<open>Python values\<close>

text \<open>
  The bot works on what \<^verbatim>\<open>response.json()\<close> decodes: \<^verbatim>\<open>None\<close>, booleans, integers,
  floats, strings, lists and dictionaries with string keys.  A dictionary is kept as
  an association list in insertion order and read with \<^const>\<open>map_of\<close>.  A Python
  \<^verbatim>\<open>str\<close> is carried as the bytes of its UTF-8 encoding, so the Cyrillic texts of
  the source are byte lists below; equality and the substring test of two strings
  agree with those of their encodings.  A float is carried by a rational, which
  fixes the only thing the program asks of one, whether it is zero; an infinity or
  a NaN acts as any other float that is not zero.
\<close>

datatype pyval =
    PNone
  | PBool bool
  | PInt int
  | PFloat rat
  | PStr string
  | PList "pyval list"
  | PDict "(string \<times> pyval) list"

fun type_name :: "pyval \<Rightarrow> string" where
  "type_name PNone = ''NoneType''"
| "type_name (PBool b) = ''bool''"
| "type_name (PInt i) = ''int''"
| "type_name (PFloat x) = ''float''"
| "type_name (PStr s) = ''str''"
| "type_name (PList xs) = ''list''"
| "type_name (PDict kvs) = ''dict''"

text \<open>Truth value testing, as \<^verbatim>\<open>or\<close> and \<^verbatim>\<open>all\<close> apply it.\<close>

fun truthy :: "pyval \<Rightarrow> bool" where
  "truthy PNone = False"
| "truthy (PBool b) = b"
| "truthy (PInt i) = (i \<noteq> 0)"
| "truthy (PFloat x) = (x \<noteq> 0)"
| "truthy (PStr s) = (s \<noteq> [])"
| "truthy (PList xs) = (xs \<noteq> [])"
| "truthy (PDict kvs) = (kvs \<noteq> [])"

fun isinstance_dict :: "pyval \<Rightarrow> bool" where
  "isinstance_dict (PDict kvs) = True"
| "isinstance_dict v = False"

fun isinstance_list :: "pyval \<Rightarrow> bool" where
  "isinstance_list (PList xs) = True"
| "isinstance_list v = False"

definition quoted :: "string \<Rightarrow> string" where
  "quoted s = [CHR 0x27] @ s @ [CHR 0x27]"

text \<open>\<^verbatim>\<open>str\<close> of an integer: decimal digits, with a minus sign below zero.\<close>

fun str_nat :: "nat \<Rightarrow> string" where
  "str_nat n = (if n < 10 then [''0123456789'' ! n]
                else str_nat (n div 10) @ [''0123456789'' ! (n mod 10)])"

definition str_int :: "int \<Rightarrow> string" where
  "str_int i = (if i < 0 then CHR ''-'' # str_nat (nat (- i)) else str_nat (nat i))"

text \<open>
  What an f-string puts in place of \<^verbatim>\<open>{value}\<close>.  The text of a float, a list or a
  dictionary is the interpreter's business (\<^verbatim>\<open>repr\<close> of floats and of nested
  strings); it is the parameter \<open>str_other\<close>.
\<close>

definition py_format :: "(pyval \<Rightarrow> string) \<Rightarrow> pyval \<Rightarrow> string" where
  "py_format str_other v =
     (case v of
        PStr s \<Rightarrow> s
      | PNone \<Rightarrow> ''None''
      | PBool b \<Rightarrow> (if b then ''True'' else ''False'')
      | PInt i \<Rightarrow> str_int i
      | _ \<Rightarrow> str_other v)"

section \<open>Exceptions\<close>

text \<open>
  Every exception the program raises or lets through is a value: its class and the
  single argument it was built with.  What \<^verbatim>\<open>requests.get\<close> raises is a
  \<open>RequestException\<close>, what \<^verbatim>\<open>.json()\<close> raises is a \<open>JSONDecodeError\<close>, and
  \<open>OtherException\<close> stands for any further subclass of \<^verbatim>\<open>Exception\<close> that a library
  call lets escape.
\<close>

text \<open>
  Modelled from the spec: the module \<^verbatim>\<open>exceptions\<close>, which declares
  \<^verbatim>\<open>GetApiAnswerException\<close>, \<^verbatim>\<open>ParametersApiException\<close> and
  \<^verbatim>\<open>UnknownStatusException\<close>, is not among the sources.  The spec speaks of a flat
  set of failure kinds, all caught at the orchestrator boundary, so the three are
  unrelated direct subclasses of \<^verbatim>\<open>Exception\<close> whose \<^verbatim>\<open>str\<close> is their argument.
\<close>

datatype exc_class =
    Exception
  | TypeError
  | KeyError
  | AttributeError
  | ConnectionError
  | JSONDecodeError
  | RequestException
  | OtherException
  | ParametersApiException
  | GetApiAnswerException
  | UnknownStatusException

datatype exn = Exn exc_class string

fun class_of :: "exn \<Rightarrow> exc_class" where
  "class_of (Exn c a) = c"

text \<open>The test of an \<^verbatim>\<open>except C\<close> clause; every class here derives from \<^verbatim>\<open>Exception\<close>.\<close>

definition exc_isinstance :: "exn \<Rightarrow> exc_class \<Rightarrow> bool" where
  "exc_isinstance e c = (class_of e = c \<or> c = Exception)"

text \<open>
  \<^verbatim>\<open>str(error)\<close>.  A \<^verbatim>\<open>KeyError\<close> prints the \<^verbatim>\<open>repr\<close> of its argument; for the
  arguments of this program (no apostrophe, no backslash, printable letters only)
  that is the argument between apostrophes.  Every other class prints the argument.
\<close>

fun str_exn :: "exn \<Rightarrow> string" where
  "str_exn (Exn c a) = (if c = KeyError then quoted a else a)"

section \<open>Operators on decoded values\<close>

text \<open>
  \<^verbatim>\<open>key in container\<close> with a string on the left: key lookup in a dictionary, element
  comparison in a list (only an equal string compares equal), substring test in a
  string; anything else is not iterable.  The messages of the interpreter's own
  errors are those of CPython 3.7 to 3.10.
\<close>

definition py_in :: "string \<Rightarrow> pyval \<Rightarrow> exn + bool" where
  "py_in key container =
     (case container of
        PDict kvs \<Rightarrow> Inr (key \<in> set (map fst kvs))
      | PList xs \<Rightarrow> Inr (PStr key \<in> set xs)
      | PStr s \<Rightarrow> Inr (sublist key s)
      | _ \<Rightarrow> Inl (Exn TypeError
                 (''argument of type '' @ quoted (type_name container) @ '' is not iterable'')))"

text \<open>\<^verbatim>\<open>obj.get(key)\<close>: only a dictionary has the method.\<close>

definition py_get :: "pyval \<Rightarrow> string \<Rightarrow> exn + pyval" where
  "py_get obj key =
     (case obj of
        PDict kvs \<Rightarrow> Inr (case map_of kvs key of None \<Rightarrow> PNone | Some v \<Rightarrow> v)
      | _ \<Rightarrow> Inl (Exn AttributeError
                 (quoted (type_name obj) @ '' object has no attribute '' @ quoted ''get'')))"

text \<open>\<^verbatim>\<open>obj[key]\<close> with a string key.\<close>

definition py_getitem :: "pyval \<Rightarrow> string \<Rightarrow> exn + pyval" where
  "py_getitem obj key =
     (case obj of
        PDict kvs \<Rightarrow> (case map_of kvs key of None \<Rightarrow> Inl (Exn KeyError key) | Some v \<Rightarrow> Inr v)
      | PList xs \<Rightarrow> Inl (Exn TypeError ''list indices must be integers or slices, not str'')
      | PStr s \<Rightarrow> Inl (Exn TypeError ''string indices must be integers'')
      | _ \<Rightarrow> Inl (Exn TypeError (quoted (type_name obj) @ '' object is not subscriptable'')))"

section \<open>Texts of the source\<close>

text \<open>
  The Cyrillic string literals of the source, as UTF-8 bytes.  In the order below:
  the argument of \<^verbatim>\<open>ParametersApiException\<close> (parameter error for the API request);
  the head of the message for a status code other than 200 (error);
  the three arguments raised by \<^verbatim>\<open>check_response\<close> (the request does not match the
  format; no key homeworks; the answer is not a list);
  the three raised by \<^verbatim>\<open>parse_status\<close> (key "homework_name" is missing in the API
  answer; key "status" is missing in the API answer; unknown homework status:);
  the head of the notification, up to and including the quotation mark that opens
  the name (the review status of the homework has changed);
  the three verdicts of the catalogue (approved, reviewing, rejected);
  and the argument of the start-up exception (one or more environment variables
  are missing).
\<close>

definition text_parameters_error :: string where
  "text_parameters_error =
     [CHR 0xD0, CHR 0x9E, CHR 0xD1, CHR 0x88, CHR 0xD0, CHR 0xB8, CHR 0xD0, CHR 0xB1, CHR
     0xD0, CHR 0xBA, CHR 0xD0, CHR 0xB0, CHR 0x20, CHR 0xD0, CHR 0xBF, CHR 0xD0, CHR 0xB0,
     CHR 0xD1, CHR 0x80, CHR 0xD0, CHR 0xB0, CHR 0xD0, CHR 0xBC, CHR 0xD0, CHR 0xB5, CHR
     0xD1, CHR 0x82, CHR 0xD1, CHR 0x80, CHR 0xD0, CHR 0xBE, CHR 0xD0, CHR 0xB2, CHR 0x20,
     CHR 0xD0, CHR 0xB4, CHR 0xD0, CHR 0xBB, CHR 0xD1, CHR 0x8F, CHR 0x20, CHR 0xD0, CHR
     0xB7, CHR 0xD0, CHR 0xB0, CHR 0xD0, CHR 0xBF, CHR 0xD1, CHR 0x80, CHR 0xD0, CHR 0xBE,
     CHR 0xD1, CHR 0x81, CHR 0xD0, CHR 0xB0, CHR 0x20, CHR 0xD0, CHR 0xBA, CHR 0x20, CHR
     0x41, CHR 0x50, CHR 0x49]"

definition text_error_prefix :: string where
  "text_error_prefix =
     [CHR 0xD0, CHR 0x9E, CHR 0xD1, CHR 0x88, CHR 0xD0, CHR 0xB8, CHR 0xD0, CHR 0xB1, CHR
     0xD0, CHR 0xBA, CHR 0xD0, CHR 0xB0, CHR 0x20]"

definition text_not_dict :: string where
  "text_not_dict =
     [CHR 0xD0, CHR 0x97, CHR 0xD0, CHR 0xB0, CHR 0xD0, CHR 0xBF, CHR 0xD1, CHR 0x80, CHR
     0xD0, CHR 0xBE, CHR 0xD1, CHR 0x81, CHR 0x20, CHR 0xD0, CHR 0xBD, CHR 0xD0, CHR 0xB5,
     CHR 0x20, CHR 0xD1, CHR 0x81, CHR 0xD0, CHR 0xBE, CHR 0xD0, CHR 0xBE, CHR 0xD1, CHR
     0x82, CHR 0xD0, CHR 0xB2, CHR 0xD0, CHR 0xB5, CHR 0xD1, CHR 0x82, CHR 0xD0, CHR 0xB2,
     CHR 0xD1, CHR 0x83, CHR 0xD0, CHR 0xB5, CHR 0xD1, CHR 0x82, CHR 0x20, CHR 0xD1, CHR
     0x84, CHR 0xD0, CHR 0xBE, CHR 0xD1, CHR 0x80, CHR 0xD0, CHR 0xBC, CHR 0xD0, CHR 0xB0,
     CHR 0xD1, CHR 0x82, CHR 0xD1, CHR 0x83]"

definition text_no_homeworks :: string where
  "text_no_homeworks =
     [CHR 0xD0, CHR 0x9D, CHR 0xD0, CHR 0xB5, CHR 0xD1, CHR 0x82, CHR 0x20, CHR 0xD0, CHR
     0xBA, CHR 0xD0, CHR 0xBB, CHR 0xD1, CHR 0x8E, CHR 0xD1, CHR 0x87, CHR 0xD0, CHR 0xB0,
     CHR 0x20, CHR 0x68, CHR 0x6F, CHR 0x6D, CHR 0x65, CHR 0x77, CHR 0x6F, CHR 0x72, CHR
     0x6B, CHR 0x73]"

definition text_not_list :: string where
  "text_not_list =
     [CHR 0xD0, CHR 0x9E, CHR 0xD1, CHR 0x82, CHR 0xD0, CHR 0xB2, CHR 0xD0, CHR 0xB5, CHR
     0xD1, CHR 0x82, CHR 0x20, CHR 0xD0, CHR 0xBD, CHR 0xD0, CHR 0xB5, CHR 0x20, CHR 0xD1,
     CHR 0x8F, CHR 0xD0, CHR 0xB2, CHR 0xD0, CHR 0xBB, CHR 0xD1, CHR 0x8F, CHR 0xD0, CHR
     0xB5, CHR 0xD1, CHR 0x82, CHR 0xD1, CHR 0x81, CHR 0xD1, CHR 0x8F, CHR 0x20, CHR 0xD1,
     CHR 0x81, CHR 0xD0, CHR 0xBF, CHR 0xD0, CHR 0xB8, CHR 0xD1, CHR 0x81, CHR 0xD0, CHR
     0xBA, CHR 0xD0, CHR 0xBE, CHR 0xD0, CHR 0xBC]"

definition text_no_homework_name :: string where
  "text_no_homework_name =
     [CHR 0xD0, CHR 0x9E, CHR 0xD1, CHR 0x82, CHR 0xD1, CHR 0x81, CHR 0xD1, CHR 0x83, CHR
     0xD1, CHR 0x82, CHR 0xD1, CHR 0x81, CHR 0xD1, CHR 0x82, CHR 0xD0, CHR 0xB2, CHR 0xD1,
     CHR 0x83, CHR 0xD0, CHR 0xB5, CHR 0xD1, CHR 0x82, CHR 0x20, CHR 0xD0, CHR 0xBA, CHR
     0xD0, CHR 0xBB, CHR 0xD1, CHR 0x8E, CHR 0xD1, CHR 0x87, CHR 0x20, CHR 0x22, CHR 0x68,
     CHR 0x6F, CHR 0x6D, CHR 0x65, CHR 0x77, CHR 0x6F, CHR 0x72, CHR 0x6B, CHR 0x5F, CHR
     0x6E, CHR 0x61, CHR 0x6D, CHR 0x65, CHR 0x22, CHR 0x20, CHR 0xD0, CHR 0xB2, CHR 0x20,
     CHR 0xD0, CHR 0xBE, CHR 0xD1, CHR 0x82, CHR 0xD0, CHR 0xB2, CHR 0xD0, CHR 0xB5, CHR
     0xD1, CHR 0x82, CHR 0xD0, CHR 0xB5, CHR 0x20, CHR 0x41, CHR 0x50, CHR 0x49]"

definition text_no_status :: string where
  "text_no_status =
     [CHR 0xD0, CHR 0x9E, CHR 0xD1, CHR 0x82, CHR 0xD1, CHR 0x81, CHR 0xD1, CHR 0x83, CHR
     0xD1, CHR 0x82, CHR 0xD1, CHR 0x81, CHR 0xD1, CHR 0x82, CHR 0xD0, CHR 0xB2, CHR 0xD1,
     CHR 0x83, CHR 0xD0, CHR 0xB5, CHR 0xD1, CHR 0x82, CHR 0x20, CHR 0xD0, CHR 0xBA, CHR
     0xD0, CHR 0xBB, CHR 0xD1, CHR 0x8E, CHR 0xD1, CHR 0x87, CHR 0x20, CHR 0x22, CHR 0x73,
     CHR 0x74, CHR 0x61, CHR 0x74, CHR 0x75, CHR 0x73, CHR 0x22, CHR 0x20, CHR 0xD0, CHR
     0xB2, CHR 0x20, CHR 0xD0, CHR 0xBE, CHR 0xD1, CHR 0x82, CHR 0xD0, CHR 0xB2, CHR 0xD0,
     CHR 0xB5, CHR 0xD1, CHR 0x82, CHR 0xD0, CHR 0xB5, CHR 0x20, CHR 0x41, CHR 0x50, CHR
     0x49]"

definition text_unknown_status :: string where
  "text_unknown_status =
     [CHR 0xD0, CHR 0x9D, CHR 0xD0, CHR 0xB5, CHR 0xD0, CHR 0xB8, CHR 0xD0, CHR 0xB7, CHR
     0xD0, CHR 0xB2, CHR 0xD0, CHR 0xB5, CHR 0xD1, CHR 0x81, CHR 0xD1, CHR 0x82, CHR 0xD0,
     CHR 0xBD, CHR 0xD1, CHR 0x8B, CHR 0xD0, CHR 0xB9, CHR 0x20, CHR 0xD1, CHR 0x81, CHR
     0xD1, CHR 0x82, CHR 0xD0, CHR 0xB0, CHR 0xD1, CHR 0x82, CHR 0xD1, CHR 0x83, CHR 0xD1,
     CHR 0x81, CHR 0x20, CHR 0xD1, CHR 0x80, CHR 0xD0, CHR 0xB0, CHR 0xD0, CHR 0xB1, CHR
     0xD0, CHR 0xBE, CHR 0xD1, CHR 0x82, CHR 0xD1, CHR 0x8B, CHR 0x3A]"

definition text_changed :: string where
  "text_changed =
     [CHR 0xD0, CHR 0x98, CHR 0xD0, CHR 0xB7, CHR 0xD0, CHR 0xBC, CHR 0xD0, CHR 0xB5, CHR
     0xD0, CHR 0xBD, CHR 0xD0, CHR 0xB8, CHR 0xD0, CHR 0xBB, CHR 0xD1, CHR 0x81, CHR 0xD1,
     CHR 0x8F, CHR 0x20, CHR 0xD1, CHR 0x81, CHR 0xD1, CHR 0x82, CHR 0xD0, CHR 0xB0, CHR
     0xD1, CHR 0x82, CHR 0xD1, CHR 0x83, CHR 0xD1, CHR 0x81, CHR 0x20, CHR 0xD0, CHR 0xBF,
     CHR 0xD1, CHR 0x80, CHR 0xD0, CHR 0xBE, CHR 0xD0, CHR 0xB2, CHR 0xD0, CHR 0xB5, CHR
     0xD1, CHR 0x80, CHR 0xD0, CHR 0xBA, CHR 0xD0, CHR 0xB8, CHR 0x20, CHR 0xD1, CHR 0x80,
     CHR 0xD0, CHR 0xB0, CHR 0xD0, CHR 0xB1, CHR 0xD0, CHR 0xBE, CHR 0xD1, CHR 0x82, CHR
     0xD1, CHR 0x8B, CHR 0x20, CHR 0x22]"

definition verdict_approved :: string where
  "verdict_approved =
     [CHR 0xD0, CHR 0xA0, CHR 0xD0, CHR 0xB0, CHR 0xD0, CHR 0xB1, CHR 0xD0, CHR 0xBE, CHR
     0xD1, CHR 0x82, CHR 0xD0, CHR 0xB0, CHR 0x20, CHR 0xD0, CHR 0xBF, CHR 0xD1, CHR 0x80,
     CHR 0xD0, CHR 0xBE, CHR 0xD0, CHR 0xB2, CHR 0xD0, CHR 0xB5, CHR 0xD1, CHR 0x80, CHR
     0xD0, CHR 0xB5, CHR 0xD0, CHR 0xBD, CHR 0xD0, CHR 0xB0, CHR 0x3A, CHR 0x20, CHR 0xD1,
     CHR 0x80, CHR 0xD0, CHR 0xB5, CHR 0xD0, CHR 0xB2, CHR 0xD1, CHR 0x8C, CHR 0xD1, CHR
     0x8E, CHR 0xD0, CHR 0xB5, CHR 0xD1, CHR 0x80, CHR 0xD1, CHR 0x83, CHR 0x20, CHR 0xD0,
     CHR 0xB2, CHR 0xD1, CHR 0x81, CHR 0xD1, CHR 0x91, CHR 0x20, CHR 0xD0, CHR 0xBF, CHR
     0xD0, CHR 0xBE, CHR 0xD0, CHR 0xBD, CHR 0xD1, CHR 0x80, CHR 0xD0, CHR 0xB0, CHR 0xD0,
     CHR 0xB2, CHR 0xD0, CHR 0xB8, CHR 0xD0, CHR 0xBB, CHR 0xD0, CHR 0xBE, CHR 0xD1, CHR
     0x81, CHR 0xD1, CHR 0x8C, CHR 0x2E, CHR 0x20, CHR 0xD0, CHR 0xA3, CHR 0xD1, CHR 0x80,
     CHR 0xD0, CHR 0xB0, CHR 0x21]"

definition verdict_reviewing :: string where
  "verdict_reviewing =
     [CHR 0xD0, CHR 0xA0, CHR 0xD0, CHR 0xB0, CHR 0xD0, CHR 0xB1, CHR 0xD0, CHR 0xBE, CHR
     0xD1, CHR 0x82, CHR 0xD0, CHR 0xB0, CHR 0x20, CHR 0xD0, CHR 0xB2, CHR 0xD0, CHR 0xB7,
     CHR 0xD1, CHR 0x8F, CHR 0xD1, CHR 0x82, CHR 0xD0, CHR 0xB0, CHR 0x20, CHR 0xD0, CHR
     0xBD, CHR 0xD0, CHR 0xB0, CHR 0x20, CHR 0xD0, CHR 0xBF, CHR 0xD1, CHR 0x80, CHR 0xD0,
     CHR 0xBE, CHR 0xD0, CHR 0xB2, CHR 0xD0, CHR 0xB5, CHR 0xD1, CHR 0x80, CHR 0xD0, CHR
     0xBA, CHR 0xD1, CHR 0x83, CHR 0x20, CHR 0xD1, CHR 0x80, CHR 0xD0, CHR 0xB5, CHR 0xD0,
     CHR 0xB2, CHR 0xD1, CHR 0x8C, CHR 0xD1, CHR 0x8E, CHR 0xD0, CHR 0xB5, CHR 0xD1, CHR
     0x80, CHR 0xD0, CHR 0xBE, CHR 0xD0, CHR 0xBC, CHR 0x2E]"

definition verdict_rejected :: string where
  "verdict_rejected =
     [CHR 0xD0, CHR 0xA0, CHR 0xD0, CHR 0xB0, CHR 0xD0, CHR 0xB1, CHR 0xD0, CHR 0xBE, CHR
     0xD1, CHR 0x82, CHR 0xD0, CHR 0xB0, CHR 0x20, CHR 0xD0, CHR 0xBF, CHR 0xD1, CHR 0x80,
     CHR 0xD0, CHR 0xBE, CHR 0xD0, CHR 0xB2, CHR 0xD0, CHR 0xB5, CHR 0xD1, CHR 0x80, CHR
     0xD0, CHR 0xB5, CHR 0xD0, CHR 0xBD, CHR 0xD0, CHR 0xB0, CHR 0x3A, CHR 0x20, CHR 0xD1,
     CHR 0x83, CHR 0x20, CHR 0xD1, CHR 0x80, CHR 0xD0, CHR 0xB5, CHR 0xD0, CHR 0xB2, CHR
     0xD1, CHR 0x8C, CHR 0xD1, CHR 0x8E, CHR 0xD0, CHR 0xB5, CHR 0xD1, CHR 0x80, CHR 0xD0,
     CHR 0xB0, CHR 0x20, CHR 0xD0, CHR 0xB5, CHR 0xD1, CHR 0x81, CHR 0xD1, CHR 0x82, CHR
     0xD1, CHR 0x8C, CHR 0x20, CHR 0xD0, CHR 0xB7, CHR 0xD0, CHR 0xB0, CHR 0xD0, CHR 0xBC,
     CHR 0xD0, CHR 0xB5, CHR 0xD1, CHR 0x87, CHR 0xD0, CHR 0xB0, CHR 0xD0, CHR 0xBD, CHR
     0xD0, CHR 0xB8, CHR 0xD1, CHR 0x8F, CHR 0x2E]"

definition text_no_environment :: string where
  "text_no_environment =
     [CHR 0xD0, CHR 0x9E, CHR 0xD1, CHR 0x82, CHR 0xD1, CHR 0x81, CHR 0xD1, CHR 0x83, CHR
     0xD1, CHR 0x82, CHR 0xD1, CHR 0x81, CHR 0xD1, CHR 0x82, CHR 0xD0, CHR 0xB2, CHR 0xD1,
     CHR 0x83, CHR 0xD0, CHR 0xB5, CHR 0xD1, CHR 0x82, CHR 0x20, CHR 0xD0, CHR 0xBE, CHR
     0xD0, CHR 0xB4, CHR 0xD0, CHR 0xBD, CHR 0xD0, CHR 0xB0, CHR 0x20, CHR 0xD0, CHR 0xB8,
     CHR 0xD0, CHR 0xBB, CHR 0xD0, CHR 0xB8, CHR 0x20, CHR 0xD0, CHR 0xBD, CHR 0xD0, CHR
     0xB5, CHR 0xD1, CHR 0x81, CHR 0xD0, CHR 0xBA, CHR 0xD0, CHR 0xBE, CHR 0xD0, CHR 0xBB,
     CHR 0xD1, CHR 0x8C, CHR 0xD0, CHR 0xBA, CHR 0xD0, CHR 0xBE, CHR 0x20, CHR 0xD0, CHR
     0xBF, CHR 0xD0, CHR 0xB5, CHR 0xD1, CHR 0x80, CHR 0xD0, CHR 0xB5, CHR 0xD0, CHR 0xBC,
     CHR 0xD0, CHR 0xB5, CHR 0xD0, CHR 0xBD, CHR 0xD0, CHR 0xBD, CHR 0xD1, CHR 0x8B, CHR
     0xD1, CHR 0x85, CHR 0x20, CHR 0xD0, CHR 0xBE, CHR 0xD0, CHR 0xBA, CHR 0xD1, CHR 0x80,
     CHR 0xD1, CHR 0x83, CHR 0xD0, CHR 0xB6, CHR 0xD0, CHR 0xB5, CHR 0xD0, CHR 0xBD, CHR
     0xD0, CHR 0xB8, CHR 0xD1, CHR 0x8F]"

section \<open>The program\<close>

subsection \<open>Configuration and constants\<close>

text \<open>
  The three values \<^verbatim>\<open>os.getenv\<close> reads at import time: \<open>None\<close> for a variable that
  is not set, \<open>Some s\<close> for one that is set to \<open>s\<close> (possibly empty).
\<close>

record config =
  PRACTICUM_TOKEN :: "string option"
  TELEGRAM_TOKEN :: "string option"
  TELEGRAM_CHAT_ID :: "string option"

definition getenv_value :: "string option \<Rightarrow> pyval" where
  "getenv_value v = (case v of None \<Rightarrow> PNone | Some s \<Rightarrow> PStr s)"

definition RETRY_TIME :: nat where
  "RETRY_TIME = 600"

definition ENDPOINT :: string where
  "ENDPOINT = ''https://practicum.yandex.ru/api/user_api/homework_statuses/''"

definition HEADERS :: "config \<Rightarrow> (string \<times> string) list" where
  "HEADERS cfg =
     [(''Authorization'',
       ''OAuth '' @ (case PRACTICUM_TOKEN cfg of None \<Rightarrow> ''None'' | Some token \<Rightarrow> token))]"

definition HOMEWORK_STATUSES :: "(string \<times> string) list" where
  "HOMEWORK_STATUSES =
     [(''approved'', verdict_approved),
      (''reviewing'', verdict_reviewing),
      (''rejected'', verdict_rejected)]"

subsection \<open>The outside world\<close>

text \<open>
  What the program does to the outside is a list of events, in order.  What the
  outside answers is given to each function as an argument: the reply of
  \<^verbatim>\<open>requests.get\<close> (an exception of the library with its text, or a response with
  its status code and what \<^verbatim>\<open>.json()\<close> yields), the outcome of
  \<^verbatim>\<open>bot.send_message\<close>, and the reading of the clock.  Calls to the loggers write to
  the log only and are left out.
\<close>

datatype event =
    HttpGet string "(string \<times> string) list" pyval
  | SendMessage "string option" string
  | Sleep nat

record response =
  status_code :: int
  json :: "string + pyval"

datatype send_outcome = Delivered | TelegramFailure string | OtherFailure string

definition requests_get :: "string + response \<Rightarrow> exn + response" where
  "requests_get reply =
     (case reply of Inl text \<Rightarrow> Inl (Exn RequestException text) | Inr r \<Rightarrow> Inr r)"

definition response_json :: "response \<Rightarrow> exn + pyval" where
  "response_json r =
     (case json r of Inl text \<Rightarrow> Inl (Exn JSONDecodeError text) | Inr v \<Rightarrow> Inr v)"

fun is_send :: "event \<Rightarrow> bool" where
  "is_send (SendMessage chat text) = True"
| "is_send ev = False"

fun is_http_get :: "event \<Rightarrow> bool" where
  "is_http_get (HttpGet url headers params) = True"
| "is_http_get ev = False"

fun is_sleep :: "event \<Rightarrow> bool" where
  "is_sleep (Sleep n) = True"
| "is_sleep ev = False"

text \<open>The texts sent to the chat, in order.\<close>

fun sent_texts :: "event list \<Rightarrow> string list" where
  "sent_texts [] = []"
| "sent_texts (SendMessage chat text # evs) = text # sent_texts evs"
| "sent_texts (ev # evs) = sent_texts evs"

subsection \<open>\<^verbatim>\<open>send_message\<close>\<close>

text \<open>
  One call of \<^verbatim>\<open>bot.send_message\<close>; a \<^verbatim>\<open>telegram.TelegramError\<close> is swallowed, any
  other exception leaves the function.
\<close>

definition send_message :: "config \<Rightarrow> send_outcome \<Rightarrow> string \<Rightarrow> event list \<times> (exn + unit)" where
  "send_message cfg outcome message =
     ([SendMessage (TELEGRAM_CHAT_ID cfg) message],
      case outcome of
        Delivered \<Rightarrow> Inr ()
      | TelegramFailure text \<Rightarrow> Inr ()
      | OtherFailure text \<Rightarrow> Inl (Exn OtherException text))"

subsection \<open>\<^verbatim>\<open>get_api_answer\<close>\<close>

text \<open>
  The two locals the function computes before the request: the cursor, or the clock
  when the cursor is false in Python's sense, and the query parameters.
\<close>

definition request_timestamp :: "pyval \<Rightarrow> int \<Rightarrow> pyval" where
  "request_timestamp current_timestamp now =
     (if truthy current_timestamp then current_timestamp else PInt now)"

definition request_params :: "pyval \<Rightarrow> pyval" where
  "request_params timestamp = PDict [(''from_date'', timestamp)]"

definition get_api_answer ::
  "config \<Rightarrow> int \<Rightarrow> string + response \<Rightarrow> pyval \<Rightarrow> event list \<times> (exn + pyval)" where
  "get_api_answer cfg now reply current_timestamp =
     (let timestamp = request_timestamp current_timestamp now;
          params = request_params timestamp
      in if timestamp = PNone \<or> params = PNone
         then ([], Inl (Exn ParametersApiException text_parameters_error))
         else
           ([HttpGet ENDPOINT (HEADERS cfg) params],
            case requests_get reply of
              Inl error \<Rightarrow>
                if exc_isinstance error GetApiAnswerException
                then Inl (Exn GetApiAnswerException [])
                else Inl error
            | Inr homework_statuses \<Rightarrow>
                if status_code homework_statuses \<noteq> 200
                then Inl (Exn GetApiAnswerException
                           (text_error_prefix @ str_int (status_code homework_statuses)))
                else
                  (case response_json homework_statuses of
                     Inl error \<Rightarrow>
                       if exc_isinstance error JSONDecodeError then Inl error
                       else if exc_isinstance error ConnectionError then Inl error
                       else Inl error
                   | Inr decoded \<Rightarrow> Inr decoded)))"

subsection \<open>\<^verbatim>\<open>check_response\<close>\<close>

definition check_response :: "pyval \<Rightarrow> exn + pyval" where
  "check_response response =
     (if \<not> isinstance_dict response then Inl (Exn TypeError text_not_dict)
      else
        case py_get response ''homeworks'' of
          Inl error \<Rightarrow> Inl error
        | Inr homework \<Rightarrow>
            (case py_in ''homeworks'' homework of
               Inl error \<Rightarrow> Inl error
             | Inr found \<Rightarrow>
                 if found then Inl (Exn KeyError text_no_homeworks)
                 else if \<not> isinstance_list homework then Inl (Exn TypeError text_not_list)
                 else Inr homework))"

subsection \<open>\<^verbatim>\<open>parse_status\<close>\<close>

text \<open>
  \<^verbatim>\<open>homework_status not in HOMEWORK_STATUSES\<close> followed by the subscript: a list or a
  dictionary cannot be hashed; a string is looked up; any other value is hashable
  and equal to no key.
\<close>

definition catalog_lookup :: "pyval \<Rightarrow> exn + string option" where
  "catalog_lookup homework_status =
     (case homework_status of
        PStr s \<Rightarrow> Inr (map_of HOMEWORK_STATUSES s)
      | PList xs \<Rightarrow> Inl (Exn TypeError (''unhashable type: '' @ quoted ''list''))
      | PDict kvs \<Rightarrow> Inl (Exn TypeError (''unhashable type: '' @ quoted ''dict''))
      | _ \<Rightarrow> Inr None)"

definition parse_status :: "(pyval \<Rightarrow> string) \<Rightarrow> pyval \<Rightarrow> exn + string" where
  "parse_status str_other homework =
     (case py_in ''homework_name'' homework of
        Inl error \<Rightarrow> Inl error
      | Inr has_name \<Rightarrow>
          if \<not> has_name then Inl (Exn KeyError text_no_homework_name)
          else
            (case py_in ''homework_status'' homework of
               Inl error \<Rightarrow> Inl error
             | Inr has_homework_status \<Rightarrow>
                 if has_homework_status then Inl (Exn KeyError text_no_status)
                 else
                   (case py_getitem homework ''homework_name'' of
                      Inl error \<Rightarrow> Inl error
                    | Inr homework_name \<Rightarrow>
                        (case py_getitem homework ''status'' of
                           Inl error \<Rightarrow> Inl error
                         | Inr homework_status \<Rightarrow>
                             (case catalog_lookup homework_status of
                                Inl error \<Rightarrow> Inl error
                              | Inr None \<Rightarrow> Inl (Exn UnknownStatusException text_unknown_status)
                              | Inr (Some verdict) \<Rightarrow>
                                  Inr (text_changed @ py_format str_other homework_name
                                       @ [CHR 0x22] @ ''. '' @ verdict))))))"

subsection \<open>\<^verbatim>\<open>check_tokens\<close>\<close>

definition check_tokens :: "config \<Rightarrow> bool" where
  "check_tokens cfg =
     list_all truthy
       (map getenv_value [PRACTICUM_TOKEN cfg, TELEGRAM_TOKEN cfg, TELEGRAM_CHAT_ID cfg])"

subsection \<open>\<^verbatim>\<open>main\<close>\<close>

text \<open>
  The variables \<^verbatim>\<open>main\<close> carries from one iteration to the next.  The cursor holds
  whatever \<^verbatim>\<open>response.get('current_date')\<close> returned last.
\<close>

record main_state =
  current_timestamp :: pyval
  MESSAGE_STATUS :: string
  ERROR_CACHE_MESSAGE :: string

text \<open>
  What the outside does during one iteration: the clock, the reply to the one GET,
  and the outcome of the one \<^verbatim>\<open>bot.send_message\<close> call each branch can make.
\<close>

record env =
  clock :: int
  reply :: "string + response"
  bot_try :: send_outcome
  bot_except :: send_outcome

text \<open>
  Both branches end in the same three lines: compare the message with the slot, send
  if it differs, store it in the slot.  The function returns the slot's new value;
  when \<^verbatim>\<open>send_message\<close> raises, the assignment is not reached.
\<close>

definition notify_if_changed ::
  "config \<Rightarrow> send_outcome \<Rightarrow> string \<Rightarrow> string \<Rightarrow> event list \<times> (exn + string)" where
  "notify_if_changed cfg outcome message slot =
     (if message \<noteq> slot
      then (case send_message cfg outcome message of
              (evs, Inl error) \<Rightarrow> (evs, Inl error)
            | (evs, Inr u) \<Rightarrow> (evs, Inr message))
      else ([], Inr slot))"

text \<open>
  The body of \<^verbatim>\<open>try\<close>.  The result is the events, the variables as they stand when
  the body is left, and the exception that left it, if any.
\<close>

definition try_body ::
  "(pyval \<Rightarrow> string) \<Rightarrow> config \<Rightarrow> env \<Rightarrow> main_state \<Rightarrow> event list \<times> main_state \<times> exn option" where
  "try_body str_other cfg e st =
     (case get_api_answer cfg (clock e) (reply e) (current_timestamp st) of
        (evs1, Inl error) \<Rightarrow> (evs1, st, Some error)
      | (evs1, Inr response) \<Rightarrow>
          (case py_get response ''current_date'' of
             Inl error \<Rightarrow> (evs1, st, Some error)
           | Inr date \<Rightarrow>
               (case check_response response of
                  Inl error \<Rightarrow> (evs1, st\<lparr>current_timestamp := date\<rparr>, Some error)
                | Inr homework \<Rightarrow>
                    (case parse_status str_other homework of
                       Inl error \<Rightarrow> (evs1, st\<lparr>current_timestamp := date\<rparr>, Some error)
                     | Inr message \<Rightarrow>
                         (case notify_if_changed cfg (bot_try e) message (MESSAGE_STATUS st) of
                            (evs2, Inl error) \<Rightarrow>
                              (evs1 @ evs2, st\<lparr>current_timestamp := date\<rparr>, Some error)
                          | (evs2, Inr slot) \<Rightarrow>
                              (evs1 @ evs2,
                               st\<lparr>current_timestamp := date, MESSAGE_STATUS := slot\<rparr>,
                               None))))))"

text \<open>The body of \<^verbatim>\<open>except Exception as error\<close>.\<close>

definition except_body ::
  "config \<Rightarrow> env \<Rightarrow> main_state \<Rightarrow> exn \<Rightarrow> event list \<times> main_state \<times> exn option" where
  "except_body cfg e st error =
     (let message_info = str_exn error
      in case notify_if_changed cfg (bot_except e) message_info (ERROR_CACHE_MESSAGE st) of
           (evs, Inl raised) \<Rightarrow> (evs, st, Some raised)
         | (evs, Inr slot) \<Rightarrow> (evs, st\<lparr>ERROR_CACHE_MESSAGE := slot\<rparr>, None))"

text \<open>
  One pass through the \<^verbatim>\<open>while\<close> body: \<^verbatim>\<open>try\<close>, then \<^verbatim>\<open>except\<close> if the body raised
  (every class derives from \<^verbatim>\<open>Exception\<close>), then \<^verbatim>\<open>finally\<close>, which runs whether or
  not an exception is still on its way out.
\<close>

definition main_iteration ::
  "(pyval \<Rightarrow> string) \<Rightarrow> config \<Rightarrow> env \<Rightarrow> main_state \<Rightarrow> event list \<times> main_state \<times> exn option" where
  "main_iteration str_other cfg e st =
     (case (case try_body str_other cfg e st of
              (evs1, st1, None) \<Rightarrow> (evs1, st1, None)
            | (evs1, st1, Some error) \<Rightarrow>
                if exc_isinstance error Exception
                then (case except_body cfg e st1 error of
                        (evs2, st2, raised) \<Rightarrow> (evs1 @ evs2, st2, raised))
                else (evs1, st1, Some error)) of
        (evs, st', raised) \<Rightarrow> (evs @ [Sleep RETRY_TIME], st', raised))"

text \<open>
  \<^verbatim>\<open>while True\<close> over the iterations the outside has answered so far: the loop goes
  on until an exception leaves an iteration.  \<open>None\<close> in the result says the loop is
  still running after the last environment.
\<close>

fun main_loop ::
  "(pyval \<Rightarrow> string) \<Rightarrow> config \<Rightarrow> env list \<Rightarrow> main_state \<Rightarrow> event list \<times> main_state \<times> exn option" where
  "main_loop str_other cfg [] st = ([], st, None)"
| "main_loop str_other cfg (e # es) st =
     (case main_iteration str_other cfg e st of
        (evs, st', Some raised) \<Rightarrow> (evs, st', Some raised)
      | (evs, st', None) \<Rightarrow>
          (case main_loop str_other cfg es st' of
             (evs', st'', raised) \<Rightarrow> (evs @ evs', st'', raised)))"

text \<open>
  Start-up: \<open>bot_created\<close> is \<open>None\<close> when \<^verbatim>\<open>telegram.Bot(token=TELEGRAM_TOKEN)\<close>
  returns and the text of its exception otherwise; \<open>start_time\<close> is the first reading
  of the clock.
\<close>

record startup =
  bot_created :: "string option"
  start_time :: int

definition main ::
  "(pyval \<Rightarrow> string) \<Rightarrow> config \<Rightarrow> startup \<Rightarrow> env list \<Rightarrow> event list \<times> (exn + main_state)" where
  "main str_other cfg boot envs =
     (case bot_created boot of
        Some text \<Rightarrow> ([], Inl (Exn OtherException text))
      | None \<Rightarrow>
          if \<not> check_tokens cfg then ([], Inl (Exn Exception text_no_environment))
          else
            (case main_loop str_other cfg envs
                    \<lparr>current_timestamp = PInt (start_time boot),
                     MESSAGE_STATUS = [], ERROR_CACHE_MESSAGE = []\<rparr> of
               (evs, st, Some raised) \<Rightarrow> (evs, Inl raised)
             | (evs, st, None) \<Rightarrow> (evs, Inr st)))"

section \<open>Basic facts\<close>

lemma sent_texts_append: "sent_texts (xs @ ys) = sent_texts xs @ sent_texts ys"
  by (induction xs rule: sent_texts.induct) simp_all

lemma get_api_answer_events:
  "fst (get_api_answer cfg now r cursor) =
     [HttpGet ENDPOINT (HEADERS cfg) (request_params (request_timestamp cursor now))]"
  by (cases cursor)
     (simp_all add: get_api_answer_def request_timestamp_def request_params_def Let_def)

lemma check_response_returns_list:
  "check_response r = Inr homework \<Longrightarrow> isinstance_list homework"
  by (auto simp: check_response_def split: if_splits sum.splits)

text \<open>
  Handed a list, \<^verbatim>\<open>parse_status\<close> raises on every path: one of its own two
  \<^verbatim>\<open>KeyError\<close>s, or the interpreter's \<^verbatim>\<open>TypeError\<close> at the first subscript.
\<close>

lemma parse_status_of_list:
  "parse_status str_other (PList xs) =
     Inl (if PStr ''homework_name'' \<notin> set xs then Exn KeyError text_no_homework_name
          else if PStr ''homework_status'' \<in> set xs then Exn KeyError text_no_status
          else Exn TypeError ''list indices must be integers or slices, not str'')"
  by (simp add: parse_status_def py_in_def py_getitem_def)

text \<open>On a dictionary that has neither spurious key, the function does what its docstring says.\<close>

lemma parse_status_of_entry:
  assumes "map_of kvs ''homework_name'' = Some name"
    and "map_of kvs ''status'' = Some (PStr status)"
    and "map_of HOMEWORK_STATUSES status = Some verdict"
    and "''homework_status'' \<notin> set (map fst kvs)"
  shows "parse_status str_other (PDict kvs) =
           Inr (text_changed @ py_format str_other name @ [CHR 0x22] @ ''. '' @ verdict)"
proof -
  from assms(1) have "''homework_name'' \<in> set (map fst kvs)"
    by (metis map_of_eq_None_iff option.distinct(1) set_map)
  with assms show ?thesis
    by (simp add: parse_status_def py_in_def py_getitem_def catalog_lookup_def)
qed

text \<open>What one call of the shared tail does, by whether the message equals the slot.\<close>

lemma send_message_events:
  "fst (send_message cfg outcome message) = [SendMessage (TELEGRAM_CHAT_ID cfg) message]"
  by (simp add: send_message_def)

lemma notify_if_changed_cases:
  "notify_if_changed cfg outcome message slot = (evs, r) \<Longrightarrow>
     (message = slot \<and> evs = [] \<and> r = Inr slot)
     \<or> (message \<noteq> slot \<and> evs = [SendMessage (TELEGRAM_CHAT_ID cfg) message]
          \<and> (r = Inr message \<or> (\<exists>error. r = Inl error)))"
  by (cases outcome) (auto simp: notify_if_changed_def send_message_def split: if_splits)

lemma try_body_raises:
  "\<exists>st' error. try_body str_other cfg e st =
      ([HttpGet ENDPOINT (HEADERS cfg) (request_params (request_timestamp (current_timestamp st) (clock e)))], st', Some error)
      \<and> MESSAGE_STATUS st' = MESSAGE_STATUS st \<and> ERROR_CACHE_MESSAGE st' = ERROR_CACHE_MESSAGE st"
proof -
  obtain evs r where g: "get_api_answer cfg (clock e) (reply e) (current_timestamp st) = (evs, r)"
    by (cases "get_api_answer cfg (clock e) (reply e) (current_timestamp st)")
  with get_api_answer_events[of cfg "clock e" "reply e" "current_timestamp st"]
  have evs: "evs = [HttpGet ENDPOINT (HEADERS cfg) (request_params (request_timestamp (current_timestamp st) (clock e)))]"
    by simp
  show ?thesis
  proof (cases r)
    case (Inl error)
    with g evs show ?thesis by (simp add: try_body_def)
  next
    case (Inr response)
    show ?thesis
    proof (cases "py_get response ''current_date''")
      case (Inl error)
      with g evs Inr show ?thesis by (simp add: try_body_def)
    next
      case date: (Inr date)
      show ?thesis
      proof (cases "check_response response")
        case (Inl error)
        with g evs Inr date show ?thesis by (simp add: try_body_def)
      next
        case hw: (Inr homework)
        then obtain xs where "homework = PList xs"
          using check_response_returns_list[OF hw] by (cases homework) simp_all
        with g evs Inr date hw show ?thesis
          by (simp add: try_body_def parse_status_of_list)
      qed
    qed
  qed
qed

lemma main_iteration_shape:
  "\<exists>sends st' raised.
     main_iteration str_other cfg e st =
       ([HttpGet ENDPOINT (HEADERS cfg) (request_params (request_timestamp (current_timestamp st) (clock e)))]
          @ sends @ [Sleep RETRY_TIME], st', raised)
     \<and> ((sends = [] \<and> ERROR_CACHE_MESSAGE st' = ERROR_CACHE_MESSAGE st)
         \<or> (\<exists>m. sends = [SendMessage (TELEGRAM_CHAT_ID cfg) m] \<and> m \<noteq> ERROR_CACHE_MESSAGE st
               \<and> (raised = None \<longrightarrow> ERROR_CACHE_MESSAGE st' = m)))"
proof -
  obtain st1 error where t: "try_body str_other cfg e st =
      ([HttpGet ENDPOINT (HEADERS cfg) (request_params (request_timestamp (current_timestamp st) (clock e)))], st1, Some error)"
      and c: "ERROR_CACHE_MESSAGE st1 = ERROR_CACHE_MESSAGE st"
    using try_body_raises[of str_other cfg e st] by blast
  obtain evs r where n: "notify_if_changed cfg (bot_except e) (str_exn error) (ERROR_CACHE_MESSAGE st1) = (evs, r)"
    by (cases "notify_if_changed cfg (bot_except e) (str_exn error) (ERROR_CACHE_MESSAGE st1)")
  from notify_if_changed_cases[OF n] show ?thesis
    using t c n
    by (auto simp: main_iteration_def except_body_def exc_isinstance_def Let_def)
qed


lemma main_loop_sends_distinct:
  "distinct_adj (ERROR_CACHE_MESSAGE st # sent_texts (fst (main_loop str_other cfg envs st)))"
proof (induction envs arbitrary: st)
  case Nil
  show ?case by simp
next
  case (Cons e es)
  obtain sends st' raised where it:
    "main_iteration str_other cfg e st =
       ([HttpGet ENDPOINT (HEADERS cfg) (request_params (request_timestamp (current_timestamp st) (clock e)))]
          @ sends @ [Sleep RETRY_TIME], st', raised)"
    and alt: "(sends = [] \<and> ERROR_CACHE_MESSAGE st' = ERROR_CACHE_MESSAGE st)
         \<or> (\<exists>m. sends = [SendMessage (TELEGRAM_CHAT_ID cfg) m] \<and> m \<noteq> ERROR_CACHE_MESSAGE st
               \<and> (raised = None \<longrightarrow> ERROR_CACHE_MESSAGE st' = m))"
    using main_iteration_shape[of str_other cfg e st] by blast
  show ?case
  proof (cases raised)
    case (Some error)
    with it alt show ?thesis
      by (auto simp: sent_texts_append)
  next
    case None
    obtain evs' st'' r where rest: "main_loop str_other cfg es st' = (evs', st'', r)"
      by (cases "main_loop str_other cfg es st'")
    from Cons.IH[of st'] rest
    have ih: "distinct_adj (ERROR_CACHE_MESSAGE st' # sent_texts evs')" by simp
    from alt show ?thesis
    proof
      assume "sends = [] \<and> ERROR_CACHE_MESSAGE st' = ERROR_CACHE_MESSAGE st"
      with it None rest ih show ?thesis
        by (simp add: sent_texts_append)
    next
      assume "\<exists>m. sends = [SendMessage (TELEGRAM_CHAT_ID cfg) m] \<and> m \<noteq> ERROR_CACHE_MESSAGE st
               \<and> (raised = None \<longrightarrow> ERROR_CACHE_MESSAGE st' = m)"
      then obtain m where "sends = [SendMessage (TELEGRAM_CHAT_ID cfg) m]"
        "m \<noteq> ERROR_CACHE_MESSAGE st" "ERROR_CACHE_MESSAGE st' = m"
        using None by blast
      with it None rest ih show ?thesis
        by (auto simp: sent_texts_append)
    qed
  qed
qed

lemma main_sends_distinct:
  "distinct_adj (sent_texts (fst (main str_other cfg boot envs)))"
proof (cases "bot_created boot = None \<and> check_tokens cfg")
  case False
  then show ?thesis
    by (cases "bot_created boot") (simp_all add: main_def)
next
  case True
  let ?st0 = "\<lparr>current_timestamp = PInt (start_time boot), MESSAGE_STATUS = [],
               ERROR_CACHE_MESSAGE = []\<rparr>"
  obtain evs st r where run: "main_loop str_other cfg envs ?st0 = (evs, st, r)"
    by (cases "main_loop str_other cfg envs ?st0")
  have "distinct_adj (ERROR_CACHE_MESSAGE ?st0 # sent_texts (fst (main_loop str_other cfg envs ?st0)))"
    by (rule main_loop_sends_distinct)
  with run have "distinct_adj (sent_texts evs)"
    by (simp add: distinct_adj_ConsD)
  moreover from True run have "fst (main str_other cfg boot envs) = evs"
    by (cases r) (simp_all add: main_def)
  ultimately show ?thesis
    by simp
qed

lemma except_body_cursor:
  "current_timestamp (fst (snd (except_body cfg e st error))) = current_timestamp st"
proof -
  obtain evs r where "notify_if_changed cfg (bot_except e) (str_exn error) (ERROR_CACHE_MESSAGE st) = (evs, r)"
    by (cases "notify_if_changed cfg (bot_except e) (str_exn error) (ERROR_CACHE_MESSAGE st)")
  then show ?thesis
    by (cases r) (simp_all add: except_body_def Let_def)
qed

lemma main_iteration_cursor:
  "current_timestamp (fst (snd (main_iteration str_other cfg e st))) =
   current_timestamp (fst (snd (try_body str_other cfg e st)))"
proof -
  obtain evs1 st1 error where t: "try_body str_other cfg e st = (evs1, st1, Some error)"
    using try_body_raises[of str_other cfg e st] by blast
  obtain evs2 st2 r where x: "except_body cfg e st1 error = (evs2, st2, r)"
    by (cases "except_body cfg e st1 error")
  with except_body_cursor[of cfg e st1 error] have "current_timestamp st2 = current_timestamp st1"
    by simp
  with t x show ?thesis
    by (simp add: main_iteration_def exc_isinstance_def)
qed

lemma try_body_cursor_reset:
  assumes "snd (get_api_answer cfg (clock e) (reply e) (current_timestamp st)) = Inr (PDict kvs)"
    and "map_of kvs ''current_date'' = None"
  shows "current_timestamp (fst (snd (try_body str_other cfg e st))) = PNone"
proof -
  obtain evs where g: "get_api_answer cfg (clock e) (reply e) (current_timestamp st) = (evs, Inr (PDict kvs))"
    using assms(1) by (cases "get_api_answer cfg (clock e) (reply e) (current_timestamp st)") simp
  have d: "py_get (PDict kvs) ''current_date'' = Inr PNone"
    using assms(2) by (simp add: py_get_def)
  show ?thesis
  proof (cases "check_response (PDict kvs)")
    case (Inl error)
    with g d show ?thesis by (simp add: try_body_def)
  next
    case hw: (Inr homework)
    then obtain xs where "homework = PList xs"
      using check_response_returns_list[OF hw] by (cases homework) simp_all
    with g d hw show ?thesis
      by (simp add: try_body_def parse_status_of_list)
  qed
qed

lemma try_body_sends_nothing:
  "sent_texts (fst (try_body str_other cfg e st)) = []"
proof -
  obtain st' error where "try_body str_other cfg e st =
      ([HttpGet ENDPOINT (HEADERS cfg)
          (request_params (request_timestamp (current_timestamp st) (clock e)))], st', Some error)"
    using try_body_raises[of str_other cfg e st] by blast
  then show ?thesis
    by simp
qed

lemma check_tokens_iff:
  "check_tokens cfg \<longleftrightarrow>
     (\<exists>p t c. PRACTICUM_TOKEN cfg = Some p \<and> p \<noteq> [] \<and> TELEGRAM_TOKEN cfg = Some t \<and> t \<noteq> []
        \<and> TELEGRAM_CHAT_ID cfg = Some c \<and> c \<noteq> [])"
  by (cases "PRACTICUM_TOKEN cfg"; cases "TELEGRAM_TOKEN cfg"; cases "TELEGRAM_CHAT_ID cfg")
     (simp_all add: check_tokens_def getenv_value_def)

lemma main_aborts_without_tokens:
  "\<not> check_tokens cfg \<Longrightarrow> \<exists>error. main str_other cfg boot envs = ([], Inl error)"
  by (cases "bot_created boot") (simp_all add: main_def)

lemma main_loop_first_event:
  "\<exists>rest. fst (main_loop str_other cfg (e # es) st) =
     HttpGet ENDPOINT (HEADERS cfg)
       (request_params (request_timestamp (current_timestamp st) (clock e))) # rest"
proof -
  obtain sends st' raised where it:
    "main_iteration str_other cfg e st =
       ([HttpGet ENDPOINT (HEADERS cfg)
           (request_params (request_timestamp (current_timestamp st) (clock e)))]
          @ sends @ [Sleep RETRY_TIME], st', raised)"
    using main_iteration_shape[of str_other cfg e st] by blast
  obtain evs' st'' r where rest: "main_loop str_other cfg es st' = (evs', st'', r)"
    by (cases "main_loop str_other cfg es st'")
  from it rest show ?thesis
    by (cases raised) simp_all
qed

lemma main_enters_loop:
  assumes "check_tokens cfg" and "bot_created boot = None"
  shows "\<exists>rest. fst (main str_other cfg boot (e # es)) =
     HttpGet ENDPOINT (HEADERS cfg)
       (request_params (request_timestamp (PInt (start_time boot)) (clock e))) # rest"
proof -
  let ?st0 = "\<lparr>current_timestamp = PInt (start_time boot), MESSAGE_STATUS = [],
               ERROR_CACHE_MESSAGE = []\<rparr>"
  obtain evs st r where run: "main_loop str_other cfg (e # es) ?st0 = (evs, st, r)"
    by (cases "main_loop str_other cfg (e # es) ?st0")
  from assms run have "fst (main str_other cfg boot (e # es)) = evs"
    by (cases r) (simp_all add: main_def)
  moreover from main_loop_first_event[of str_other cfg e es ?st0] run
  have "\<exists>rest. evs = HttpGet ENDPOINT (HEADERS cfg)
       (request_params (request_timestamp (PInt (start_time boot)) (clock e))) # rest"
    by simp
  ultimately show ?thesis
    by simp
qed

lemma notify_if_changed_sends:
  "sent_texts (fst (notify_if_changed cfg outcome text slot)) = (if text \<noteq> slot then [text] else [])"
  by (cases outcome) (simp_all add: notify_if_changed_def send_message_def)

text \<open>
  What an iteration sends, exactly: the body of \<^verbatim>\<open>try\<close> raises, and the text of what it
  raised goes to the chat if and only if it differs from the error slot; an
  iteration that is not left by an exception has that text in the slot afterwards.
\<close>

lemma main_iteration_sends:
  "\<exists>error. snd (snd (try_body str_other cfg e st)) = Some error
     \<and> sent_texts (fst (main_iteration str_other cfg e st)) =
         (if str_exn error \<noteq> ERROR_CACHE_MESSAGE st then [str_exn error] else [])
     \<and> (snd (snd (main_iteration str_other cfg e st)) = None \<longrightarrow>
          ERROR_CACHE_MESSAGE (fst (snd (main_iteration str_other cfg e st))) = str_exn error)
     \<and> (str_exn error = ERROR_CACHE_MESSAGE st \<longrightarrow>
          snd (snd (main_iteration str_other cfg e st)) = None)"
proof -
  obtain st1 error where t: "try_body str_other cfg e st =
      ([HttpGet ENDPOINT (HEADERS cfg)
          (request_params (request_timestamp (current_timestamp st) (clock e)))], st1, Some error)"
    and c: "ERROR_CACHE_MESSAGE st1 = ERROR_CACHE_MESSAGE st"
    using try_body_raises[of str_other cfg e st] by blast
  obtain evs r where n:
    "notify_if_changed cfg (bot_except e) (str_exn error) (ERROR_CACHE_MESSAGE st1) = (evs, r)"
    by (cases "notify_if_changed cfg (bot_except e) (str_exn error) (ERROR_CACHE_MESSAGE st1)")
  have x: "except_body cfg e st1 error =
             (case r of Inl raised \<Rightarrow> (evs, st1, Some raised)
              | Inr slot \<Rightarrow> (evs, st1\<lparr>ERROR_CACHE_MESSAGE := slot\<rparr>, None))"
    using n by (cases r) (simp_all add: except_body_def Let_def)
  have it: "main_iteration str_other cfg e st =
             (case r of
                Inl raised \<Rightarrow>
                  (HttpGet ENDPOINT (HEADERS cfg)
                     (request_params (request_timestamp (current_timestamp st) (clock e)))
                   # evs @ [Sleep RETRY_TIME], st1, Some raised)
              | Inr slot \<Rightarrow>
                  (HttpGet ENDPOINT (HEADERS cfg)
                     (request_params (request_timestamp (current_timestamp st) (clock e)))
                   # evs @ [Sleep RETRY_TIME], st1\<lparr>ERROR_CACHE_MESSAGE := slot\<rparr>, None))"
    using t x by (cases r) (simp_all add: main_iteration_def exc_isinstance_def)
  from notify_if_changed_cases[OF n] have
    "sent_texts (fst (main_iteration str_other cfg e st)) =
         (if str_exn error \<noteq> ERROR_CACHE_MESSAGE st then [str_exn error] else [])
     \<and> (snd (snd (main_iteration str_other cfg e st)) = None \<longrightarrow>
          ERROR_CACHE_MESSAGE (fst (snd (main_iteration str_other cfg e st))) = str_exn error)
     \<and> (str_exn error = ERROR_CACHE_MESSAGE st \<longrightarrow>
          snd (snd (main_iteration str_other cfg e st)) = None)"
    using it c by (auto simp: sent_texts_append)
  with t show ?thesis
    by simp
qed

text \<open>
  Two iterations in a row that fail with the same text: the first sends it; the
  second runs only if the first was not left by an exception, and then finds the text
  in the slot.
\<close>

lemma main_loop_same_failure_twice:
  assumes slot: "ERROR_CACHE_MESSAGE st \<noteq> m"
    and first: "snd (snd (try_body str_other cfg e1 st)) = Some error1" "str_exn error1 = m"
    and second: "snd (snd (try_body str_other cfg e2 (fst (snd (main_iteration str_other cfg e1 st)))))
                   = Some error2" "str_exn error2 = m"
  shows "sent_texts (fst (main_loop str_other cfg [e1, e2] st)) = [m]"
proof -
  obtain evs1 st1 r1 where it1: "main_iteration str_other cfg e1 st = (evs1, st1, r1)"
    by (cases "main_iteration str_other cfg e1 st") auto
  from main_iteration_sends[of str_other cfg e1 st] first slot it1
  have s1: "sent_texts evs1 = [m]" and c1: "r1 = None \<longrightarrow> ERROR_CACHE_MESSAGE st1 = m"
    by auto
  show ?thesis
  proof (cases r1)
    case (Some raised)
    with it1 s1 show ?thesis by simp
  next
    case None
    obtain evs2 st2 r2 where it2: "main_iteration str_other cfg e2 st1 = (evs2, st2, r2)"
      by (cases "main_iteration str_other cfg e2 st1") auto
    from second it1 have "snd (snd (try_body str_other cfg e2 st1)) = Some error2"
      by simp
    with main_iteration_sends[of str_other cfg e2 st1] second(2) c1 None it2
    have "sent_texts evs2 = []"
      by auto
    with it1 it2 s1 None show ?thesis
      by (cases r2) (simp_all add: sent_texts_append)
  qed
qed

text \<open>A response that is not a dictionary leaves the cursor where it was.\<close>

lemma main_iteration_keeps_cursor:
  assumes "snd (get_api_answer cfg (clock e) (reply e) (current_timestamp st)) = Inr response"
    and "\<not> isinstance_dict response"
  shows "current_timestamp (fst (snd (main_iteration str_other cfg e st))) = current_timestamp st"
proof -
  obtain evs where g:
    "get_api_answer cfg (clock e) (reply e) (current_timestamp st) = (evs, Inr response)"
    using assms(1) by (cases "get_api_answer cfg (clock e) (reply e) (current_timestamp st)") simp
  from assms(2) obtain error where "py_get response ''current_date'' = Inl error"
    by (cases response) (simp_all add: py_get_def)
  with g have "current_timestamp (fst (snd (try_body str_other cfg e st))) = current_timestamp st"
    by (simp add: try_body_def)
  then show ?thesis
    by (simp add: main_iteration_cursor)
qed

section \<open>Claims\<close>

text \<open>
  C1.  The claim: when the poll returns the response with the one entry \<^verbatim>\<open>hw1\<close> of
  status \<^verbatim>\<open>approved\<close> and \<^verbatim>\<open>current_date\<close> 1000, one message with the name and the
  verdict is sent and the cursor becomes 1000.  The code moves the cursor and sends
  one message, but the message is the text of a \<^verbatim>\<open>KeyError\<close>: \<^verbatim>\<open>main\<close> hands
  \<^verbatim>\<open>parse_status\<close> the whole list that \<^verbatim>\<open>check_response\<close> returns, not an entry of
  it, and the list does not contain the string \<^verbatim>\<open>homework_name\<close>.  The text sent holds
  neither the name nor the verdict.
\<close>

theorem main_scenario_one_reports_error:
  "main str_other
     \<lparr>PRACTICUM_TOKEN = Some ''p'', TELEGRAM_TOKEN = Some ''t'', TELEGRAM_CHAT_ID = Some ''c''\<rparr>
     \<lparr>bot_created = None, start_time = 7\<rparr>
     [\<lparr>clock = 8,
       reply = Inr \<lparr>status_code = 200,
                     json = Inr (PDict [(''homeworks'',
                                         PList [PDict [(''homework_name'', PStr ''hw1''),
                                                       (''status'', PStr ''approved'')]]),
                                        (''current_date'', PInt 1000)])\<rparr>,
       bot_try = Delivered, bot_except = Delivered\<rparr>]
   = ([HttpGet ENDPOINT [(''Authorization'', ''OAuth p'')] (PDict [(''from_date'', PInt 7)]),
       SendMessage (Some ''c'') (quoted text_no_homework_name),
       Sleep 600],
      Inr \<lparr>current_timestamp = PInt 1000, MESSAGE_STATUS = [],
           ERROR_CACHE_MESSAGE = quoted text_no_homework_name\<rparr>)
   \<and> \<not> sublist ''hw1'' (quoted text_no_homework_name)
   \<and> \<not> sublist verdict_approved (quoted text_no_homework_name)"
proof -
  have run: "main str_other
     \<lparr>PRACTICUM_TOKEN = Some ''p'', TELEGRAM_TOKEN = Some ''t'', TELEGRAM_CHAT_ID = Some ''c''\<rparr>
     \<lparr>bot_created = None, start_time = 7\<rparr>
     [\<lparr>clock = 8,
       reply = Inr \<lparr>status_code = 200,
                     json = Inr (PDict [(''homeworks'',
                                         PList [PDict [(''homework_name'', PStr ''hw1''),
                                                       (''status'', PStr ''approved'')]]),
                                        (''current_date'', PInt 1000)])\<rparr>,
       bot_try = Delivered, bot_except = Delivered\<rparr>]
   = ([HttpGet ENDPOINT [(''Authorization'', ''OAuth p'')] (PDict [(''from_date'', PInt 7)]),
       SendMessage (Some ''c'') (quoted text_no_homework_name),
       Sleep 600],
      Inr \<lparr>current_timestamp = PInt 1000, MESSAGE_STATUS = [],
           ERROR_CACHE_MESSAGE = quoted text_no_homework_name\<rparr>)"
    by (simp add: main_def check_tokens_def getenv_value_def main_iteration_def try_body_def
          except_body_def get_api_answer_def request_timestamp_def request_params_def
          requests_get_def response_json_def py_get_def check_response_def py_in_def
          parse_status_of_list notify_if_changed_def send_message_def exc_isinstance_def
          HEADERS_def RETRY_TIME_def quoted_def Let_def)
  have name: "\<not> sublist ''hw1'' (quoted text_no_homework_name)"
    by (simp add: quoted_def text_no_homework_name_def sublist_Cons_right)
  have verdict: "\<not> sublist verdict_approved (quoted text_no_homework_name)"
    by (simp add: quoted_def text_no_homework_name_def verdict_approved_def sublist_Cons_right)
  from run name verdict show ?thesis
    by blast
qed

text \<open>
  C2.  The claim: for a response that is a dictionary without the key
  \<^verbatim>\<open>homeworks\<close>, \<^verbatim>\<open>check_response\<close> raises a \<^verbatim>\<open>KeyError\<close>.  The code does not: at the
  empty dictionary \<^verbatim>\<open>response.get('homeworks')\<close> is \<^verbatim>\<open>None\<close>, the membership test
  \<^verbatim>\<open>'homeworks' in None\<close> raises the interpreter's \<^verbatim>\<open>TypeError\<close>, and the
  \<^verbatim>\<open>KeyError\<close> the function means to raise is never reached.
\<close>

theorem check_response_empty_dict_type_error:
  "check_response (PDict []) =
     Inl (Exn TypeError (''argument of type '' @ quoted ''NoneType'' @ '' is not iterable''))
   \<and> class_of (Exn TypeError (''argument of type '' @ quoted ''NoneType'' @ '' is not iterable''))
       \<noteq> KeyError"
  by (simp add: check_response_def py_get_def py_in_def)

text \<open>The same happens at every dictionary without the key.\<close>

lemma check_response_without_homeworks:
  "map_of kvs ''homeworks'' = None \<Longrightarrow>
   check_response (PDict kvs) =
     Inl (Exn TypeError (''argument of type '' @ quoted ''NoneType'' @ '' is not iterable''))"
  by (simp add: check_response_def py_get_def py_in_def)

text \<open>
  C3.  Two iterations of \<^verbatim>\<open>main\<close> in a row that fail with the same text \<open>m\<close>, from
  an error slot that differs from \<open>m\<close>, send \<open>m\<close> exactly once.  More generally,
  every iteration sends the text of what its \<^verbatim>\<open>try\<close> body raised exactly when that
  text differs from the error slot, and an iteration that is not left by an
  exception has stored it; the compare-send-store tail that both branches share
  sends its message exactly when it differs from its slot.  The \<^verbatim>\<open>try\<close> body never
  gets as far as its own tail, so \<^verbatim>\<open>main\<close> sends no status message at all, every text
  sent is an error message, and among the texts of a whole run no two neighbours
  are equal.
\<close>

theorem main_notifies_once_per_change:
  assumes "ERROR_CACHE_MESSAGE st \<noteq> m"
    and "snd (snd (try_body str_other cfg e1 st)) = Some error1"
    and "str_exn error1 = m"
    and "snd (snd (try_body str_other cfg e2 (fst (snd (main_iteration str_other cfg e1 st)))))
           = Some error2"
    and "str_exn error2 = m"
  shows "sent_texts (fst (main_loop str_other cfg [e1, e2] st)) = [m]
    \<and> (\<exists>error. snd (snd (try_body str_other cfg e st')) = Some error
          \<and> sent_texts (fst (main_iteration str_other cfg e st')) =
              (if str_exn error \<noteq> ERROR_CACHE_MESSAGE st' then [str_exn error] else [])
          \<and> (snd (snd (main_iteration str_other cfg e st')) = None \<longrightarrow>
               ERROR_CACHE_MESSAGE (fst (snd (main_iteration str_other cfg e st'))) = str_exn error))
    \<and> sent_texts (fst (notify_if_changed cfg outcome text slot)) =
        (if text \<noteq> slot then [text] else [])
    \<and> sent_texts (fst (try_body str_other cfg e st')) = []
    \<and> distinct_adj (sent_texts (fst (main str_other cfg boot envs)))"
proof -
  have two: "sent_texts (fst (main_loop str_other cfg [e1, e2] st)) = [m]"
    using assms by (rule main_loop_same_failure_twice)
  obtain error where raised: "snd (snd (try_body str_other cfg e st')) = Some error"
    and sends: "sent_texts (fst (main_iteration str_other cfg e st')) =
              (if str_exn error \<noteq> ERROR_CACHE_MESSAGE st' then [str_exn error] else [])"
    and stored: "snd (snd (main_iteration str_other cfg e st')) = None \<longrightarrow>
               ERROR_CACHE_MESSAGE (fst (snd (main_iteration str_other cfg e st'))) = str_exn error"
    using main_iteration_sends[of str_other cfg e st'] by (elim exE conjE)
  have each: "\<exists>error. snd (snd (try_body str_other cfg e st')) = Some error
          \<and> sent_texts (fst (main_iteration str_other cfg e st')) =
              (if str_exn error \<noteq> ERROR_CACHE_MESSAGE st' then [str_exn error] else [])
          \<and> (snd (snd (main_iteration str_other cfg e st')) = None \<longrightarrow>
               ERROR_CACHE_MESSAGE (fst (snd (main_iteration str_other cfg e st'))) = str_exn error)"
    by (intro exI[of _ error] conjI) (rule raised, rule sends, rule stored)
  have helper: "sent_texts (fst (notify_if_changed cfg outcome text slot)) =
        (if text \<noteq> slot then [text] else [])"
    by (rule notify_if_changed_sends)
  have status: "sent_texts (fst (try_body str_other cfg e st')) = []"
    by (rule try_body_sends_nothing)
  have run: "distinct_adj (sent_texts (fst (main str_other cfg boot envs)))"
    by (rule main_sends_distinct)
  show ?thesis
    by (intro conjI) (rule two, rule each, rule helper, rule status, rule run)
qed

text \<open>The two-iteration run at a failed request, with each hypothesis evaluated.\<close>

theorem main_notifies_once_per_change_witness:
  "ERROR_CACHE_MESSAGE \<lparr>current_timestamp = PInt 7, MESSAGE_STATUS = [], ERROR_CACHE_MESSAGE = []\<rparr>
     \<noteq> ''down''
   \<and> snd (snd (try_body (\<lambda>v. [])
        \<lparr>PRACTICUM_TOKEN = Some ''p'', TELEGRAM_TOKEN = Some ''t'', TELEGRAM_CHAT_ID = Some ''c''\<rparr>
        \<lparr>clock = 8, reply = Inl ''down'', bot_try = Delivered, bot_except = Delivered\<rparr>
        \<lparr>current_timestamp = PInt 7, MESSAGE_STATUS = [], ERROR_CACHE_MESSAGE = []\<rparr>))
     = Some (Exn RequestException ''down'')
   \<and> str_exn (Exn RequestException ''down'') = ''down''
   \<and> sent_texts (fst (main_loop (\<lambda>v. [])
        \<lparr>PRACTICUM_TOKEN = Some ''p'', TELEGRAM_TOKEN = Some ''t'', TELEGRAM_CHAT_ID = Some ''c''\<rparr>
        [\<lparr>clock = 8, reply = Inl ''down'', bot_try = Delivered, bot_except = Delivered\<rparr>,
         \<lparr>clock = 608, reply = Inl ''down'', bot_try = Delivered, bot_except = Delivered\<rparr>]
        \<lparr>current_timestamp = PInt 7, MESSAGE_STATUS = [], ERROR_CACHE_MESSAGE = []\<rparr>))
     = [''down'']"
proof -
  let ?cfg = "\<lparr>PRACTICUM_TOKEN = Some ''p'', TELEGRAM_TOKEN = Some ''t'',
               TELEGRAM_CHAT_ID = Some ''c''\<rparr>"
  let ?e1 = "\<lparr>clock = 8, reply = Inl ''down'', bot_try = Delivered, bot_except = Delivered\<rparr>"
  let ?e2 = "\<lparr>clock = 608, reply = Inl ''down'', bot_try = Delivered, bot_except = Delivered\<rparr>"
  let ?st = "\<lparr>current_timestamp = PInt 7, MESSAGE_STATUS = [], ERROR_CACHE_MESSAGE = []\<rparr>"
  have slot: "ERROR_CACHE_MESSAGE ?st \<noteq> ''down''"
    by simp
  have first: "snd (snd (try_body (\<lambda>v. []) ?cfg ?e1 ?st)) = Some (Exn RequestException ''down'')"
    by (simp add: try_body_def get_api_answer_def request_timestamp_def request_params_def
          requests_get_def exc_isinstance_def Let_def)
  have same: "str_exn (Exn RequestException ''down'') = ''down''"
    by simp
  have second: "snd (snd (try_body (\<lambda>v. []) ?cfg ?e2
                   (fst (snd (main_iteration (\<lambda>v. []) ?cfg ?e1 ?st)))))
                 = Some (Exn RequestException ''down'')"
    by (simp add: main_iteration_def except_body_def notify_if_changed_def send_message_def
          try_body_def get_api_answer_def request_timestamp_def request_params_def
          requests_get_def exc_isinstance_def Let_def)
  from main_notifies_once_per_change [OF slot first same second same]
  have "sent_texts (fst (main_loop (\<lambda>v. []) ?cfg [?e1, ?e2] ?st)) = [''down'']"
    by (rule conjunct1)
  with slot first same show ?thesis
    by (intro conjI)
qed

text \<open>Two failed polls in a row with the same text: one message.\<close>

lemma main_repeated_failure_sends_once:
  "sent_texts (fst (main (\<lambda>v. [])
        \<lparr>PRACTICUM_TOKEN = Some ''p'', TELEGRAM_TOKEN = Some ''t'', TELEGRAM_CHAT_ID = Some ''c''\<rparr>
        \<lparr>bot_created = None, start_time = 7\<rparr>
        [\<lparr>clock = 8, reply = Inl ''down'', bot_try = Delivered, bot_except = Delivered\<rparr>,
         \<lparr>clock = 608, reply = Inl ''down'', bot_try = Delivered, bot_except = Delivered\<rparr>]))
   = [''down'']"
  by (simp add: main_def check_tokens_def getenv_value_def main_iteration_def try_body_def
        except_body_def get_api_answer_def request_timestamp_def request_params_def
        requests_get_def notify_if_changed_def send_message_def exc_isinstance_def Let_def)

text \<open>
  C4.  The claim: for every entry with a name and a status of the catalogue,
  \<^verbatim>\<open>parse_status\<close> returns the notification.  The code raises instead when the entry
  also carries a key \<^verbatim>\<open>homework_status\<close>: the second guard tests for the presence of
  that key where the absence of \<^verbatim>\<open>status\<close> was meant.
\<close>

theorem parse_status_valid_entry_raises:
  "parse_status str_other
     (PDict [(''homework_name'', PStr ''hw1''), (''status'', PStr ''approved''),
             (''homework_status'', PStr ''approved'')])
   = Inl (Exn KeyError text_no_status)"
  by (simp add: parse_status_def py_in_def)

text \<open>
  C5.  The claim: \<^verbatim>\<open>parse_status\<close> raises a \<^verbatim>\<open>KeyError\<close> for an entry without a status,
  and raises one only when the name or the status is absent.  The second half fails:
  the entry below has both fields, and the guard on \<^verbatim>\<open>homework_status\<close> raises the
  \<^verbatim>\<open>KeyError\<close> whose text says that \<^verbatim>\<open>status\<close> is missing.
\<close>

theorem parse_status_key_error_with_both_fields:
  "map_of [(''homework_name'', PStr ''hw2''), (''status'', PStr ''reviewing''),
           (''homework_status'', PNone)] ''homework_name'' = Some (PStr ''hw2'')
   \<and> map_of [(''homework_name'', PStr ''hw2''), (''status'', PStr ''reviewing''),
              (''homework_status'', PNone)] ''status'' = Some (PStr ''reviewing'')
   \<and> parse_status str_other
         (PDict [(''homework_name'', PStr ''hw2''), (''status'', PStr ''reviewing''),
                 (''homework_status'', PNone)])
       = Inl (Exn KeyError text_no_status)"
  by (simp add: parse_status_def py_in_def)

text \<open>The first half of C5 holds, by the interpreter's own \<^verbatim>\<open>KeyError\<close> if by no other.\<close>

lemma parse_status_without_status:
  assumes "map_of kvs ''status'' = None"
  shows "\<exists>text. parse_status str_other (PDict kvs) = Inl (Exn KeyError text)"
proof (cases "map_of kvs ''homework_name''")
  case None
  then have "''homework_name'' \<notin> set (map fst kvs)"
    by (simp add: map_of_eq_None_iff)
  then show ?thesis
    by (simp add: parse_status_def py_in_def)
next
  case (Some name)
  then have "''homework_name'' \<in> set (map fst kvs)"
    by (metis map_of_eq_None_iff option.distinct(1) set_map)
  with Some assms show ?thesis
    by (simp add: parse_status_def py_in_def py_getitem_def)
qed

text \<open>
  C6.  The claim: a transport failure of the GET is caught and raised again as the
  fetch failure, \<^verbatim>\<open>GetApiAnswerException\<close>.  The code's \<^verbatim>\<open>except\<close> clause names
  \<^verbatim>\<open>GetApiAnswerException\<close> itself, which \<^verbatim>\<open>requests.get\<close> never raises, so the
  library's exception passes through unchanged.
\<close>

theorem get_api_answer_transport_failure_passes_through:
  "snd (get_api_answer cfg now (Inl text) cursor) = Inl (Exn RequestException text)
   \<and> class_of (Exn RequestException text) \<noteq> GetApiAnswerException"
  by (cases cursor)
     (simp_all add: get_api_answer_def request_timestamp_def request_params_def Let_def
        requests_get_def exc_isinstance_def)

text \<open>
  C7, as amended.  If one of the three configuration values is not set or is the
  empty string, \<^verbatim>\<open>check_tokens\<close> is false and \<^verbatim>\<open>main\<close> ends with an exception
  without a single event, so without a poll.  If all three are set and not empty,
  \<^verbatim>\<open>check_tokens\<close> is true and, once the bot client has been constructed, the loop is
  entered: the first event of \<^verbatim>\<open>main\<close> is the GET of the first iteration.
\<close>

theorem main_configuration_gate:
  "((PRACTICUM_TOKEN cfg = None \<or> PRACTICUM_TOKEN cfg = Some []
      \<or> TELEGRAM_TOKEN cfg = None \<or> TELEGRAM_TOKEN cfg = Some []
      \<or> TELEGRAM_CHAT_ID cfg = None \<or> TELEGRAM_CHAT_ID cfg = Some [])
     \<longrightarrow> \<not> check_tokens cfg \<and> (\<exists>error. main str_other cfg boot envs = ([], Inl error)))
   \<and> ((\<exists>p t c. PRACTICUM_TOKEN cfg = Some p \<and> p \<noteq> [] \<and> TELEGRAM_TOKEN cfg = Some t \<and> t \<noteq> []
          \<and> TELEGRAM_CHAT_ID cfg = Some c \<and> c \<noteq> [])
        \<longrightarrow> check_tokens cfg
            \<and> (bot_created boot = None \<longrightarrow>
                 (\<exists>rest. fst (main str_other cfg boot (e # es)) =
                    HttpGet ENDPOINT (HEADERS cfg)
                      (request_params (request_timestamp (PInt (start_time boot)) (clock e)))
                    # rest)))"
proof (intro conjI impI)
  assume absent: "PRACTICUM_TOKEN cfg = None \<or> PRACTICUM_TOKEN cfg = Some []
      \<or> TELEGRAM_TOKEN cfg = None \<or> TELEGRAM_TOKEN cfg = Some []
      \<or> TELEGRAM_CHAT_ID cfg = None \<or> TELEGRAM_CHAT_ID cfg = Some []"
  then show no: "\<not> check_tokens cfg"
    by (auto simp: check_tokens_iff)
  then show "\<exists>error. main str_other cfg boot envs = ([], Inl error)"
    by (rule main_aborts_without_tokens)
next
  assume "\<exists>p t c. PRACTICUM_TOKEN cfg = Some p \<and> p \<noteq> [] \<and> TELEGRAM_TOKEN cfg = Some t \<and> t \<noteq> []
          \<and> TELEGRAM_CHAT_ID cfg = Some c \<and> c \<noteq> []"
  then show "check_tokens cfg"
    by (simp add: check_tokens_iff)
next
  assume "\<exists>p t c. PRACTICUM_TOKEN cfg = Some p \<and> p \<noteq> [] \<and> TELEGRAM_TOKEN cfg = Some t \<and> t \<noteq> []
          \<and> TELEGRAM_CHAT_ID cfg = Some c \<and> c \<noteq> []"
    and "bot_created boot = None"
  then show "\<exists>rest. fst (main str_other cfg boot (e # es)) =
                    HttpGet ENDPOINT (HEADERS cfg)
                      (request_params (request_timestamp (PInt (start_time boot)) (clock e)))
                    # rest"
    by (simp add: check_tokens_iff main_enters_loop)
qed

text \<open>
  The claim as stated fails twice.  A value that is present but empty: \<^verbatim>\<open>os.getenv\<close>
  returns the empty string, which \<^verbatim>\<open>all\<close> takes for false.  And three values that
  are present and not empty, with a bot client whose constructor raises: \<^verbatim>\<open>main\<close>
  ends on its first line.
\<close>

theorem main_aborts_with_all_values_present:
  "PRACTICUM_TOKEN \<lparr>PRACTICUM_TOKEN = Some [], TELEGRAM_TOKEN = Some ''t'', TELEGRAM_CHAT_ID = Some ''c''\<rparr> \<noteq> None
   \<and> TELEGRAM_TOKEN \<lparr>PRACTICUM_TOKEN = Some [], TELEGRAM_TOKEN = Some ''t'', TELEGRAM_CHAT_ID = Some ''c''\<rparr> \<noteq> None
   \<and> TELEGRAM_CHAT_ID \<lparr>PRACTICUM_TOKEN = Some [], TELEGRAM_TOKEN = Some ''t'', TELEGRAM_CHAT_ID = Some ''c''\<rparr> \<noteq> None
   \<and> \<not> check_tokens \<lparr>PRACTICUM_TOKEN = Some [], TELEGRAM_TOKEN = Some ''t'', TELEGRAM_CHAT_ID = Some ''c''\<rparr>
   \<and> main (\<lambda>v. [])
        \<lparr>PRACTICUM_TOKEN = Some [], TELEGRAM_TOKEN = Some ''t'', TELEGRAM_CHAT_ID = Some ''c''\<rparr>
        \<lparr>bot_created = None, start_time = 7\<rparr>
        [\<lparr>clock = 8, reply = Inl ''down'', bot_try = Delivered, bot_except = Delivered\<rparr>]
      = ([], Inl (Exn Exception text_no_environment))
   \<and> main (\<lambda>v. [])
        \<lparr>PRACTICUM_TOKEN = Some ''p'', TELEGRAM_TOKEN = Some ''t'', TELEGRAM_CHAT_ID = Some ''c''\<rparr>
        \<lparr>bot_created = Some ''Invalid token'', start_time = 7\<rparr>
        [\<lparr>clock = 8, reply = Inl ''down'', bot_try = Delivered, bot_except = Delivered\<rparr>]
      = ([], Inl (Exn OtherException ''Invalid token''))"
  by (simp add: check_tokens_def getenv_value_def main_def)

text \<open>Both halves at concrete configurations.\<close>

theorem main_configuration_gate_witness:
  "\<not> check_tokens \<lparr>PRACTICUM_TOKEN = None, TELEGRAM_TOKEN = Some ''t'', TELEGRAM_CHAT_ID = Some ''c''\<rparr>
   \<and> (\<exists>error. main (\<lambda>v. [])
          \<lparr>PRACTICUM_TOKEN = None, TELEGRAM_TOKEN = Some ''t'', TELEGRAM_CHAT_ID = Some ''c''\<rparr>
          \<lparr>bot_created = None, start_time = 7\<rparr>
          [\<lparr>clock = 8, reply = Inl ''down'', bot_try = Delivered, bot_except = Delivered\<rparr>]
        = ([], Inl error))
   \<and> check_tokens \<lparr>PRACTICUM_TOKEN = Some ''p'', TELEGRAM_TOKEN = Some ''t'', TELEGRAM_CHAT_ID = Some ''c''\<rparr>
   \<and> (\<exists>rest. fst (main (\<lambda>v. [])
          \<lparr>PRACTICUM_TOKEN = Some ''p'', TELEGRAM_TOKEN = Some ''t'', TELEGRAM_CHAT_ID = Some ''c''\<rparr>
          \<lparr>bot_created = None, start_time = 7\<rparr>
          [\<lparr>clock = 8, reply = Inl ''down'', bot_try = Delivered, bot_except = Delivered\<rparr>])
        = HttpGet ENDPOINT [(''Authorization'', ''OAuth p'')] (PDict [(''from_date'', PInt 7)]) # rest)"
  using main_configuration_gate
          [of "\<lparr>PRACTICUM_TOKEN = None, TELEGRAM_TOKEN = Some ''t'', TELEGRAM_CHAT_ID = Some ''c''\<rparr>"
              "\<lambda>v. []" "\<lparr>bot_created = None, start_time = 7\<rparr>"
              "[\<lparr>clock = 8, reply = Inl ''down'', bot_try = Delivered, bot_except = Delivered\<rparr>]"]
        main_configuration_gate
          [of "\<lparr>PRACTICUM_TOKEN = Some ''p'', TELEGRAM_TOKEN = Some ''t'', TELEGRAM_CHAT_ID = Some ''c''\<rparr>"
              "\<lambda>v. []" "\<lparr>bot_created = None, start_time = 7\<rparr>" "[]"
              "\<lparr>clock = 8, reply = Inl ''down'', bot_try = Delivered, bot_except = Delivered\<rparr>" "[]"]
  by (simp add: HEADERS_def request_params_def request_timestamp_def)

text \<open>
  C8.  Every iteration ends with \<^verbatim>\<open>time.sleep(600)\<close>, and sleeps nowhere else: the
  events of an iteration are some events without a sleep followed by the sleep of
  600 seconds.  This holds on every path, whether the iteration ends normally or an
  exception leaves it.  In the loop the events of the next iteration, if there is
  one, come after those of this one, so after its sleep.
\<close>

theorem main_iteration_ends_with_sleep:
  "(\<exists>evs. fst (main_iteration str_other cfg e st) = evs @ [Sleep 600] \<and> filter is_sleep evs = [])
   \<and> fst (main_loop str_other cfg (e # es) st) =
       fst (main_iteration str_other cfg e st)
       @ (if snd (snd (main_iteration str_other cfg e st)) = None
          then fst (main_loop str_other cfg es (fst (snd (main_iteration str_other cfg e st))))
          else [])"
proof -
  let ?get = "HttpGet ENDPOINT (HEADERS cfg)
                (request_params (request_timestamp (current_timestamp st) (clock e)))"
  obtain sends st' raised where it:
    "main_iteration str_other cfg e st = ([?get] @ sends @ [Sleep RETRY_TIME], st', raised)"
    and alt: "(sends = [] \<and> ERROR_CACHE_MESSAGE st' = ERROR_CACHE_MESSAGE st)
         \<or> (\<exists>m. sends = [SendMessage (TELEGRAM_CHAT_ID cfg) m] \<and> m \<noteq> ERROR_CACHE_MESSAGE st
               \<and> (raised = None \<longrightarrow> ERROR_CACHE_MESSAGE st' = m))"
    using main_iteration_shape[of str_other cfg e st] by blast
  from alt have quiet: "filter is_sleep (?get # sends) = []"
    by auto
  from it have "fst (main_iteration str_other cfg e st) = (?get # sends) @ [Sleep 600]"
    by (simp add: RETRY_TIME_def)
  with quiet have one: "\<exists>evs. fst (main_iteration str_other cfg e st) = evs @ [Sleep 600]
                          \<and> filter is_sleep evs = []"
    by blast
  obtain evs' st'' r where rest: "main_loop str_other cfg es st' = (evs', st'', r)"
    by (cases "main_loop str_other cfg es st'")
  from it rest have "fst (main_loop str_other cfg (e # es) st) =
       fst (main_iteration str_other cfg e st)
       @ (if snd (snd (main_iteration str_other cfg e st)) = None
          then fst (main_loop str_other cfg es (fst (snd (main_iteration str_other cfg e st))))
          else [])"
    by (cases raised) simp_all
  with one show ?thesis
    by blast
qed

text \<open>
  An iteration whose \<^verbatim>\<open>except\<close> body itself faults: the exception leaves the loop, and
  the sleep has still been made.
\<close>

lemma main_iteration_fault_still_sleeps:
  "main_iteration str_other cfg
     \<lparr>clock = 8, reply = Inl ''down'', bot_try = Delivered, bot_except = OtherFailure ''boom''\<rparr>
     \<lparr>current_timestamp = PInt 7, MESSAGE_STATUS = [], ERROR_CACHE_MESSAGE = []\<rparr>
   = ([HttpGet ENDPOINT (HEADERS cfg) (PDict [(''from_date'', PInt 7)]),
       SendMessage (TELEGRAM_CHAT_ID cfg) ''down'',
       Sleep 600],
      \<lparr>current_timestamp = PInt 7, MESSAGE_STATUS = [], ERROR_CACHE_MESSAGE = []\<rparr>,
      Some (Exn OtherException ''boom''))"
  by (simp add: main_iteration_def try_body_def except_body_def get_api_answer_def
        request_timestamp_def request_params_def requests_get_def notify_if_changed_def
        send_message_def exc_isinstance_def RETRY_TIME_def Let_def)

text \<open>
  C9.  In \<^verbatim>\<open>get_api_answer\<close> the guard before the request never fires: the timestamp
  is the cursor when that is true in Python's sense, which \<^verbatim>\<open>None\<close> is not, and an
  integer otherwise; the parameters are a dictionary.  So the function always issues
  the GET and never raises \<^verbatim>\<open>ParametersApiException\<close>.
\<close>

theorem get_api_answer_parameters_guard_dead:
  "request_timestamp cursor now \<noteq> PNone
   \<and> request_params timestamp \<noteq> PNone
   \<and> fst (get_api_answer cfg now r cursor) =
       [HttpGet ENDPOINT (HEADERS cfg) (request_params (request_timestamp cursor now))]
   \<and> snd (get_api_answer cfg now r cursor) \<noteq> Inl (Exn ParametersApiException text)"
proof -
  have ts: "request_timestamp cursor now \<noteq> PNone"
    by (cases cursor) (simp_all add: request_timestamp_def)
  have ps: "request_params timestamp \<noteq> PNone"
    by (simp add: request_params_def)
  have "snd (get_api_answer cfg now r cursor) \<noteq> Inl (Exn ParametersApiException text)"
    using ts
    by (auto simp: get_api_answer_def Let_def request_params_def requests_get_def
          response_json_def exc_isinstance_def split: sum.splits)
  with ts ps show ?thesis
    by (simp add: get_api_answer_events)
qed

text \<open>
  C10, as amended.  When the fetch returns a dictionary without the key
  \<^verbatim>\<open>current_date\<close>, the cursor after the iteration is \<^verbatim>\<open>None\<close>, whatever it was
  before, and the next iteration asks for \<^verbatim>\<open>from_date\<close> equal to its own reading of
  the clock.
\<close>

theorem main_cursor_reset_without_current_date:
  assumes "snd (get_api_answer cfg (clock e) (reply e) (current_timestamp st)) = Inr (PDict kvs)"
    and "map_of kvs ''current_date'' = None"
  shows "current_timestamp (fst (snd (main_iteration str_other cfg e st))) = PNone
    \<and> (\<exists>rest. fst (main_iteration str_other cfg e' (fst (snd (main_iteration str_other cfg e st)))) =
          HttpGet ENDPOINT (HEADERS cfg) (PDict [(''from_date'', PInt (clock e'))]) # rest)"
proof -
  let ?st' = "fst (snd (main_iteration str_other cfg e st))"
  have cur: "current_timestamp ?st' = PNone"
    using assms by (simp add: main_iteration_cursor try_body_cursor_reset)
  obtain sends st'' raised where
    "main_iteration str_other cfg e' ?st' =
       ([HttpGet ENDPOINT (HEADERS cfg) (request_params (request_timestamp (current_timestamp ?st') (clock e')))]
          @ sends @ [Sleep RETRY_TIME], st'', raised)"
    using main_iteration_shape[of str_other cfg e' ?st'] by blast
  with cur show ?thesis
    by (simp add: request_params_def request_timestamp_def)
qed

text \<open>
  Without the restriction to dictionaries the statement fails: a body that decodes
  to a list is a successful fetch without the field, \<^verbatim>\<open>response.get\<close> raises
  \<^verbatim>\<open>AttributeError\<close> before the assignment, and the cursor stays.  The next request
  carries the old cursor 7, neither \<^verbatim>\<open>None\<close> nor the clock's 608.
\<close>

theorem main_keeps_cursor_on_list_response:
  "snd (get_api_answer
          \<lparr>PRACTICUM_TOKEN = Some ''p'', TELEGRAM_TOKEN = Some ''t'', TELEGRAM_CHAT_ID = Some ''c''\<rparr>
          8 (Inr \<lparr>status_code = 200, json = Inr (PList [PInt 1, PInt 2])\<rparr>) (PInt 7))
     = Inr (PList [PInt 1, PInt 2])
   \<and> main_loop (\<lambda>v. [])
        \<lparr>PRACTICUM_TOKEN = Some ''p'', TELEGRAM_TOKEN = Some ''t'', TELEGRAM_CHAT_ID = Some ''c''\<rparr>
        [\<lparr>clock = 8,
          reply = Inr \<lparr>status_code = 200, json = Inr (PList [PInt 1, PInt 2])\<rparr>,
          bot_try = Delivered, bot_except = Delivered\<rparr>,
         \<lparr>clock = 608, reply = Inl ''down'', bot_try = Delivered, bot_except = Delivered\<rparr>]
        \<lparr>current_timestamp = PInt 7, MESSAGE_STATUS = [], ERROR_CACHE_MESSAGE = []\<rparr>
     = ([HttpGet ENDPOINT [(''Authorization'', ''OAuth p'')] (PDict [(''from_date'', PInt 7)]),
         SendMessage (Some ''c'')
           (quoted ''list'' @ '' object has no attribute '' @ quoted ''get''),
         Sleep 600,
         HttpGet ENDPOINT [(''Authorization'', ''OAuth p'')] (PDict [(''from_date'', PInt 7)]),
         SendMessage (Some ''c'') ''down'',
         Sleep 600],
        \<lparr>current_timestamp = PInt 7, MESSAGE_STATUS = [], ERROR_CACHE_MESSAGE = ''down''\<rparr>,
        None)
   \<and> PInt 7 \<noteq> PNone \<and> PInt 7 \<noteq> PInt 608"
  by (simp add: main_iteration_def try_body_def except_body_def get_api_answer_def
        request_timestamp_def request_params_def requests_get_def response_json_def py_get_def
        notify_if_changed_def send_message_def exc_isinstance_def HEADERS_def RETRY_TIME_def
        quoted_def Let_def)

text \<open>A response with an empty homework list and no date, then a second poll.\<close>

theorem main_cursor_reset_without_current_date_witness:
  "snd (get_api_answer
          \<lparr>PRACTICUM_TOKEN = Some ''p'', TELEGRAM_TOKEN = Some ''t'', TELEGRAM_CHAT_ID = Some ''c''\<rparr>
          8 (Inr \<lparr>status_code = 200, json = Inr (PDict [(''homeworks'', PList [])])\<rparr>) (PInt 7))
     = Inr (PDict [(''homeworks'', PList [])])
   \<and> map_of [(''homeworks'', PList [])] ''current_date'' = None
   \<and> current_timestamp (fst (snd (main_iteration (\<lambda>v. [])
          \<lparr>PRACTICUM_TOKEN = Some ''p'', TELEGRAM_TOKEN = Some ''t'', TELEGRAM_CHAT_ID = Some ''c''\<rparr>
          \<lparr>clock = 8,
            reply = Inr \<lparr>status_code = 200, json = Inr (PDict [(''homeworks'', PList [])])\<rparr>,
            bot_try = Delivered, bot_except = Delivered\<rparr>
          \<lparr>current_timestamp = PInt 7, MESSAGE_STATUS = [], ERROR_CACHE_MESSAGE = []\<rparr>)))
       = PNone"
proof -
  let ?cfg = "\<lparr>PRACTICUM_TOKEN = Some ''p'', TELEGRAM_TOKEN = Some ''t'',
               TELEGRAM_CHAT_ID = Some ''c''\<rparr>"
  let ?e = "\<lparr>clock = 8,
            reply = Inr \<lparr>status_code = 200, json = Inr (PDict [(''homeworks'', PList [])])\<rparr>,
            bot_try = Delivered, bot_except = Delivered\<rparr>"
  let ?st = "\<lparr>current_timestamp = PInt 7, MESSAGE_STATUS = [], ERROR_CACHE_MESSAGE = []\<rparr>"
  have fetch: "snd (get_api_answer ?cfg (clock ?e) (reply ?e) (current_timestamp ?st))
                 = Inr (PDict [(''homeworks'', PList [])])"
    by (simp add: get_api_answer_def request_timestamp_def request_params_def requests_get_def
          response_json_def Let_def)
  have lacks: "map_of [(''homeworks'', PList [])] ''current_date'' = None"
    by simp
  from main_cursor_reset_without_current_date [OF fetch lacks, of "\<lambda>v. []" ?e] fetch lacks
  show ?thesis
    by simp
qed

end
